theory Spec2Isabelle
  imports Main "HOL-Library.AList"
begin

section \<open>Python values and exceptions\<close>

text \<open>
  The vendor subsystem of couchapp (\<^verbatim>\<open>src/couchapp/vendor.py\<close>) is embedded as pure
  functions over an explicit state: the file system, the messages handed to the logger
  and the names the operating system will give to temporary files. An exception is the
  left injection of a sum; the state returned with it is the state at the raise.
\<close>

datatype json =
    JNull
  | JBool bool
  | JNum int
  | JStr string
  | JArr "json list"
  | JObj "(string \<times> json) list"

text \<open>Python's truth value of a decoded JSON value, as \<^verbatim>\<open>not uri\<close> tests it.\<close>

fun truthy :: "json \<Rightarrow> bool" where
  "truthy JNull = False"
| "truthy (JBool b) = b"
| "truthy (JNum n) = (n \<noteq> 0)"
| "truthy (JStr s) = (s \<noteq> [])"
| "truthy (JArr xs) = (xs \<noteq> [])"
| "truthy (JObj kvs) = (kvs \<noteq> [])"

text \<open>A dict with string keys, in insertion order; \<^verbatim>\<open>d.get(k, default)\<close> and \<^verbatim>\<open>d[k] = v\<close>.\<close>

type_synonym meta = "(string \<times> json) list"

definition dict_get :: "('k \<times> 'v) list \<Rightarrow> 'k \<Rightarrow> 'v \<Rightarrow> 'v" where
  "dict_get d k dflt = (case map_of d k of None \<Rightarrow> dflt | Some v \<Rightarrow> v)"

definition dict_set :: "('k \<times> 'v) list \<Rightarrow> 'k \<Rightarrow> 'v \<Rightarrow> ('k \<times> 'v) list" where
  "dict_set d k v = AList.update k v d"

datatype error =
    VendorError string
  | AttributeError string
  | NameError string
  | UnboundLocalError string
  | ImportError string
  | TypeError string
  | ValueError string
  | OSError string
  | IOError string
  | ShutilError string

section \<open>Paths and the file system\<close>

text \<open>
  \<^verbatim>\<open>os.path.join(a, b)\<close> of posixpath: an absolute \<open>b\<close> replaces \<open>a\<close>; otherwise the
  two are joined with one slash unless \<open>a\<close> is empty or already ends in one.
\<close>

definition path_join :: "string \<Rightarrow> string \<Rightarrow> string" where
  "path_join a b =
     (if (case b of [] \<Rightarrow> False | c # _ \<Rightarrow> c = CHR ''/'') then b
      else if a = [] \<or> last a = CHR ''/'' then a @ b
      else a @ ''/'' @ b)"

fun split_slash :: "string \<Rightarrow> string list" where
  "split_slash [] = [[]]"
| "split_slash (c # cs) =
     (if c = CHR ''/'' then [] # split_slash cs
      else (case split_slash cs of [] \<Rightarrow> [[c]] | w # ws \<Rightarrow> (c # w) # ws))"

definition basename :: "string \<Rightarrow> string" where
  "basename p = last (split_slash p)"

text \<open>
  A regular file holds raw bytes or the serialisation of a JSON object (the metadata
  files of \<^verbatim>\<open>vendor.py\<close> are such objects).
\<close>

datatype content = Bytes string | JsonObject meta

datatype entry = EDir | EFile content

text \<open>
  The file system maps the names on the way from the root to an entry. Every path is
  read from one root (the working directory is the root) and there are no symbolic
  links. A path is resolved name after name as the kernel does: an empty name and
  \<^verbatim>\<open>.\<close> stay where they are, \<^verbatim>\<open>..\<close> goes up (the root is its own parent), and
  going on from a place needs a directory there (ENOENT when nothing is there, ENOTDIR
  when a regular file is). The result is the place the path names, whether or not
  anything is there. The empty path names nothing.
\<close>

type_synonym filesystem = "(string list \<times> entry) list"

fun walk :: "filesystem \<Rightarrow> string list \<Rightarrow> string list \<Rightarrow> string + string list" where
  "walk t cur [] = Inr cur"
| "walk t cur (c # cs) =
     (if cur \<noteq> [] \<and> map_of t cur = None then Inl ''ENOENT''
      else if cur \<noteq> [] \<and> map_of t cur \<noteq> Some EDir then Inl ''ENOTDIR''
      else if c = [] \<or> c = ''.'' then walk t cur cs
      else if c = ''..'' then walk t (butlast cur) cs
      else walk t (cur @ [c]) cs)"

definition locate :: "filesystem \<Rightarrow> string \<Rightarrow> string + string list" where
  "locate t p = (if p = [] then Inl ''ENOENT'' else walk t [] (split_slash p))"

text \<open>\<^verbatim>\<open>os.stat\<close>: the place and the entry a path names, or the errno.\<close>

definition stat :: "filesystem \<Rightarrow> string \<Rightarrow> string + (string list \<times> entry)" where
  "stat t p =
     (case locate t p of
        Inl errno \<Rightarrow> Inl errno
      | Inr k \<Rightarrow>
          if k = [] then Inr ([], EDir)
          else (case map_of t k of None \<Rightarrow> Inl ''ENOENT'' | Some e \<Rightarrow> Inr (k, e)))"

definition fs_exists :: "filesystem \<Rightarrow> string \<Rightarrow> bool" where
  "fs_exists t p = (case stat t p of Inl _ \<Rightarrow> False | Inr _ \<Rightarrow> True)"

definition isdir :: "filesystem \<Rightarrow> string \<Rightarrow> bool" where
  "isdir t p = (case stat t p of Inr (_, EDir) \<Rightarrow> True | _ \<Rightarrow> False)"

definition isfile :: "filesystem \<Rightarrow> string \<Rightarrow> bool" where
  "isfile t p = (case stat t p of Inr (_, EFile _) \<Rightarrow> True | _ \<Rightarrow> False)"

definition children :: "filesystem \<Rightarrow> string list \<Rightarrow> string list" where
  "children t k = remdups (map (\<lambda>(q, e). last q) (filter (\<lambda>(q, e). q \<noteq> [] \<and> butlast q = k) t))"

definition listdir :: "filesystem \<Rightarrow> string \<Rightarrow> error + string list" where
  "listdir t p =
     (case stat t p of
        Inl errno \<Rightarrow> Inl (OSError errno)
      | Inr (k, EFile _) \<Rightarrow> Inl (OSError ''ENOTDIR'')
      | Inr (k, EDir) \<Rightarrow> Inr (children t k))"

text \<open>
  \<^verbatim>\<open>os.makedirs\<close>: the names of the path are walked, every missing directory on the way
  is made, and the last \<^verbatim>\<open>mkdir\<close> fails with EEXIST unless the walk ends in a directory
  it has just made (\<open>made\<close>). A regular file on the way gives ENOTDIR, as the last name
  EEXIST.
\<close>

fun makedirs_walk :: "string list \<Rightarrow> bool \<Rightarrow> string list \<Rightarrow> filesystem \<Rightarrow> error + filesystem" where
  "makedirs_walk cur made [] t = (if made then Inr t else Inl (OSError ''EEXIST''))"
| "makedirs_walk cur made (c # cs) t =
     (if c = [] \<or> c = ''.'' then makedirs_walk cur made cs t
      else if c = ''..'' then makedirs_walk (butlast cur) False cs t
      else (case map_of t (cur @ [c]) of
              None \<Rightarrow> makedirs_walk (cur @ [c]) True cs (t @ [(cur @ [c], EDir)])
            | Some EDir \<Rightarrow> makedirs_walk (cur @ [c]) False cs t
            | Some (EFile _) \<Rightarrow> Inl (OSError (if cs = [] then ''EEXIST'' else ''ENOTDIR''))))"

definition makedirs :: "filesystem \<Rightarrow> string \<Rightarrow> error + filesystem" where
  "makedirs t p =
     (if p = [] then Inl (OSError ''ENOENT'') else makedirs_walk [] False (split_slash p) t)"

definition unlink :: "filesystem \<Rightarrow> string \<Rightarrow> error + filesystem" where
  "unlink t p =
     (case stat t p of
        Inl errno \<Rightarrow> Inl (OSError errno)
      | Inr (k, EDir) \<Rightarrow> Inl (OSError ''EISDIR'')
      | Inr (k, EFile _) \<Rightarrow> Inr (AList.delete k t))"

text \<open>
  Opening a file for writing: the way to it must resolve (ENOENT or ENOTDIR otherwise)
  and it must not be a directory.
\<close>

definition write_file :: "filesystem \<Rightarrow> string \<Rightarrow> content \<Rightarrow> error + filesystem" where
  "write_file t p c =
     (case locate t p of
        Inl errno \<Rightarrow> Inl (IOError errno)
      | Inr k \<Rightarrow>
          if k = [] \<or> map_of t k = Some EDir then Inl (IOError ''EISDIR'')
          else Inr (AList.update k (EFile c) t))"

text \<open>
  \<^verbatim>\<open>shutil.copy(src, dst)\<close> copies one regular file: a destination that is a directory
  stands for the file of the same base name inside it, source and destination must not
  be the same file, and the source is opened for reading, which fails on a directory
  (EISDIR) and on a path that does not resolve.
\<close>

definition samefile :: "filesystem \<Rightarrow> string \<Rightarrow> string \<Rightarrow> bool" where
  "samefile t a b =
     (case stat t a of
        Inl _ \<Rightarrow> False
      | Inr (ka, _) \<Rightarrow> (case stat t b of Inl _ \<Rightarrow> False | Inr (kb, _) \<Rightarrow> ka = kb))"

definition shutil_copy :: "filesystem \<Rightarrow> string \<Rightarrow> string \<Rightarrow> error + filesystem" where
  "shutil_copy t src dst =
     (let dst' = (if isdir t dst then path_join dst (basename src) else dst) in
      if samefile t src dst' then Inl (ShutilError ''same file'')
      else (case stat t src of
              Inl errno \<Rightarrow> Inl (IOError errno)
            | Inr (_, EDir) \<Rightarrow> Inl (IOError ''EISDIR'')
            | Inr (_, EFile c) \<Rightarrow> write_file t dst' c))"

section \<open>The state and the ui collaborator\<close>

datatype logentry = LogInfo string | LogError string

record state =
  st_fs :: filesystem
  st_log :: "logentry list"
  st_tmpnames :: "string list"

type_synonym 'a result = "(error + 'a) \<times> state"

definition returnM :: "'a \<Rightarrow> state \<Rightarrow> 'a result" where
  "returnM x st = (Inr x, st)"

definition raiseM :: "error \<Rightarrow> state \<Rightarrow> 'a result" where
  "raiseM e st = (Inl e, st)"

definition bindM :: "(state \<Rightarrow> 'a result) \<Rightarrow> ('a \<Rightarrow> state \<Rightarrow> 'b result) \<Rightarrow> state \<Rightarrow> 'b result" where
  "bindM m f st = (case m st of (Inl e, st') \<Rightarrow> (Inl e, st') | (Inr x, st') \<Rightarrow> f x st')"

text \<open>A file-system call that returns the new file system or raises.\<close>

definition fs_update :: "(filesystem \<Rightarrow> error + filesystem) \<Rightarrow> state \<Rightarrow> unit result" where
  "fs_update f st =
     (case f (st_fs st) of Inl e \<Rightarrow> (Inl e, st) | Inr t \<Rightarrow> (Inr (), st\<lparr>st_fs := t\<rparr>))"

text \<open>A file-system call that only reads.\<close>

definition fs_read :: "(filesystem \<Rightarrow> error + 'a) \<Rightarrow> state \<Rightarrow> 'a result" where
  "fs_read f st = (case f (st_fs st) of Inl e \<Rightarrow> (Inl e, st) | Inr x \<Rightarrow> (Inr x, st))"

datatype confval =
    ConfDict "(string \<times> string) list"
  | ConfSeq "string list list"
  | ConfOther

record ui =
  ui_verbose :: int
  ui_conf :: "(string \<times> confval) list"

text \<open>
  Modelled from the spec: the ui collaborator (\<^verbatim>\<open>couchapp.ui\<close>, not among the source
  files) "supplies JSON read/write helpers, recursive-delete, and a leveled logger
  (info, error)". \<open>read_json\<close> returns the JSON object a file holds, \<open>write_json\<close>
  writes one, \<open>deltree\<close> removes a path and everything below it (and does nothing when
  the path is absent), and the logger appends to the log.
\<close>

definition read_json :: "filesystem \<Rightarrow> string \<Rightarrow> error + meta" where
  "read_json t p =
     (case stat t p of
        Inl errno \<Rightarrow> Inl (IOError errno)
      | Inr (_, EDir) \<Rightarrow> Inl (IOError ''EISDIR'')
      | Inr (_, EFile (Bytes _)) \<Rightarrow> Inl (ValueError ''no JSON object'')
      | Inr (_, EFile (JsonObject m)) \<Rightarrow> Inr m)"

definition write_json :: "filesystem \<Rightarrow> string \<Rightarrow> meta \<Rightarrow> error + filesystem" where
  "write_json t p m = write_file t p (JsonObject m)"

definition deltree :: "filesystem \<Rightarrow> string \<Rightarrow> filesystem" where
  "deltree t p =
     (case locate t p of
        Inl _ \<Rightarrow> t
      | Inr k \<Rightarrow> filter (\<lambda>(q, e). take (length k) q \<noteq> k) t)"

definition ui_deltree :: "string \<Rightarrow> state \<Rightarrow> unit result" where
  "ui_deltree p st = (Inr (), st\<lparr>st_fs := deltree (st_fs st) p\<rparr>)"

definition logger_info :: "string \<Rightarrow> state \<Rightarrow> unit result" where
  "logger_info msg st = (Inr (), st\<lparr>st_log := st_log st @ [LogInfo msg]\<rparr>)"

definition logger_error :: "string \<Rightarrow> state \<Rightarrow> unit result" where
  "logger_error msg st = (Inr (), st\<lparr>st_log := st_log st @ [LogError msg]\<rparr>)"

text \<open>\<^verbatim>\<open>if self.ui.verbose >= 1: self.ui.logger.info(msg)\<close>\<close>

definition info_if_verbose :: "ui \<Rightarrow> string \<Rightarrow> state \<Rightarrow> unit result" where
  "info_if_verbose u msg st = (if ui_verbose u \<ge> 1 then logger_info msg st else (Inr (), st))"

section \<open>The handler registry\<close>

text \<open>
  A fetch plugin's \<^verbatim>\<open>fetch(ui, uri, path, *args, **opts)\<close>: it may write anything and
  may raise. A plugin module is what \<^verbatim>\<open>__import__\<close> returns; each attribute
  \<^verbatim>\<open>load_vendors\<close> reads may be missing.
\<close>

type_synonym fetchfun = "json \<Rightarrow> string \<Rightarrow> state \<Rightarrow> unit result"

record pymodule =
  mod_name :: "string option"
  mod_copyright :: "string option"
  mod_help :: "string option"
  mod_scheme :: "string list option"
  mod_fetch :: "fetchfun option"

type_synonym modules = "(string \<times> pymodule) list"

definition GLOBAL_VENDOR_HANDLERS :: "(string \<times> string) list" where
  "GLOBAL_VENDOR_HANDLERS =
     [(''couchdb'', ''couchapp.couchdbvendor''),
      (''git'', ''couchapp.gitvendor''),
      (''hg'', ''couchapp.hgvendor'')]"

record vendor =
  v_ui :: ui
  v_vendor_handlers :: "(string \<times> string) list"
  v_scheme :: "(string \<times> fetchfun) list"
  v_vendors :: "(string \<times> string \<times> string) list"

text \<open>
  \<^verbatim>\<open>dict.update\<close> with a mapping, and with a sequence of key/value sequences: the
  latter inserts pair after pair and raises ValueError at the first element that is not
  of length two, keeping what it has inserted. The second component tells whether
  ValueError was raised.
\<close>

definition dict_update :: "('k \<times> 'v) list \<Rightarrow> ('k \<times> 'v) list \<Rightarrow> ('k \<times> 'v) list" where
  "dict_update d kvs = fold (\<lambda>(k, v) acc. AList.update k v acc) kvs d"

fun dict_update_seq :: "(string \<times> string) list \<Rightarrow> string list list \<Rightarrow> (string \<times> string) list \<times> bool" where
  "dict_update_seq d [] = (d, False)"
| "dict_update_seq d ([k, v] # rest) = dict_update_seq (AList.update k v d) rest"
| "dict_update_seq d (_ # rest) = (d, True)"

text \<open>
  \<^verbatim>\<open>load_vendors\<close>: the loop over \<^verbatim>\<open>self.vendor_handlers.items()\<close>, with the dicts
  \<open>scheme\<close> and \<open>vendors\<close> it fills.
\<close>

fun load_vendors_loop ::
  "modules \<Rightarrow> (string \<times> string) list \<Rightarrow> (string \<times> fetchfun) list \<Rightarrow>
   (string \<times> string \<times> string) list \<Rightarrow>
   error + ((string \<times> fetchfun) list \<times> (string \<times> string \<times> string) list)" where
  "load_vendors_loop mods [] scheme vendors = Inr (scheme, vendors)"
| "load_vendors_loop mods ((handler_name, modname) # rest) scheme vendors =
     (case map_of mods modname of
        None \<Rightarrow> Inl (ImportError modname)
      | Some m \<Rightarrow>
          (case (mod_fetch m, mod_scheme m) of
             (Some fetchcmd, Some schemes) \<Rightarrow>
               (case mod_copyright m of
                  None \<Rightarrow> Inl (AttributeError ''copyright'')
                | Some c \<Rightarrow>
                    (case mod_help m of
                       None \<Rightarrow> Inl (AttributeError ''help'')
                     | Some h \<Rightarrow>
                         load_vendors_loop mods rest
                           (fold (\<lambda>s acc. AList.update s fetchcmd acc) schemes scheme)
                           (vendors @ [(case mod_name m of None \<Rightarrow> handler_name | Some n \<Rightarrow> n, c, h)])))
           | _ \<Rightarrow> load_vendors_loop mods rest scheme vendors))"

definition load_vendors ::
  "modules \<Rightarrow> (string \<times> string) list \<Rightarrow>
   error + ((string \<times> fetchfun) list \<times> (string \<times> string \<times> string) list)" where
  "load_vendors mods vendor_handlers = load_vendors_loop mods vendor_handlers [] []"

text \<open>
  \<^verbatim>\<open>Vendor.__init__\<close>. The module-level dict \<^verbatim>\<open>GLOBAL_VENDOR_HANDLERS\<close> is process state:
  the constructor takes its current value \<open>g\<close> and returns the value it leaves behind.
  \<^verbatim>\<open>vendor_handlers = GLOBAL_VENDOR_HANDLERS\<close> binds a second name to the same dict, so
  the update is an update of \<open>g\<close>, also when the constructor then raises.
\<close>

definition Vendor_init ::
  "ui \<Rightarrow> modules \<Rightarrow> (string \<times> string) list \<Rightarrow> (error + vendor) \<times> (string \<times> string) list" where
  "Vendor_init u mods g =
     (case (case map_of (ui_conf u) ''vendor_handlers'' of
              None \<Rightarrow> Inr g
            | Some (ConfDict kvs) \<Rightarrow> Inr (dict_update g kvs)
            | Some (ConfSeq elems) \<Rightarrow> Inr (fst (dict_update_seq g elems))
            | Some ConfOther \<Rightarrow> Inl (TypeError ''object is not iterable'')) of
        Inl e \<Rightarrow> (Inl e, g)
      | Inr g' \<Rightarrow>
          (case load_vendors mods g' of
             Inl e \<Rightarrow> (Inl e, g')
           | Inr (scheme, vendors) \<Rightarrow>
               (Inr \<lparr>v_ui = u, v_vendor_handlers = g', v_scheme = scheme, v_vendors = vendors\<rparr>, g')))"

text \<open>\<^verbatim>\<open>uri.split("://")[0]\<close>: everything before the first \<^verbatim>\<open>://\<close>, or all of it.\<close>

fun scheme_of :: "string \<Rightarrow> string" where
  "scheme_of [] = []"
| "scheme_of (c # cs) = (if take 3 (c # cs) = ''://'' then [] else c # scheme_of cs)"

definition find_handler :: "vendor \<Rightarrow> json \<Rightarrow> error + fetchfun" where
  "find_handler self uri =
     (case uri of
        JStr u \<Rightarrow>
          (case map_of (v_scheme self) (scheme_of u) of
             Some f \<Rightarrow> Inr f
           | None \<Rightarrow> Inl (VendorError (''unkonw vendor url scheme: '' @ u)))
      | _ \<Rightarrow> Inl (AttributeError ''split''))"

definition installed_vendors :: "filesystem \<Rightarrow> string \<Rightarrow> error + string list" where
  "installed_vendors t vendordir =
     (case listdir t vendordir of
        Inl e \<Rightarrow> Inl e
      | Inr names \<Rightarrow>
          Inr (filter (\<lambda>name. isfile t (path_join (path_join vendordir name) ''metadata.json'')) names))"

section \<open>Fetching into a staging directory\<close>

text \<open>
  \<^verbatim>\<open>_tempdir\<close>: \<^verbatim>\<open>tempfile.mkstemp\<close> creates an empty file under a name that does not
  exist yet (the next such name of \<open>st_tmpnames\<close>), \<^verbatim>\<open>os.unlink\<close> removes it again and
  the name is returned: the staging path does not exist when the handler is called.
\<close>

fun mkstemp :: "filesystem \<Rightarrow> string list \<Rightarrow> error + (string \<times> string list \<times> filesystem)" where
  "mkstemp t [] = Inl (IOError ''EEXIST'')"
| "mkstemp t (n # ns) =
     (if fs_exists t n then mkstemp t ns
      else (case write_file t n (Bytes []) of
              Inl e \<Rightarrow> Inl e
            | Inr t' \<Rightarrow> Inr (n, ns, t')))"

definition tempdir :: "state \<Rightarrow> string result" where
  "tempdir st =
     (case mkstemp (st_fs st) (st_tmpnames st) of
        Inl e \<Rightarrow> (Inl e, st)
      | Inr (fname, ns, t) \<Rightarrow>
          (case unlink t fname of
             Inl e \<Rightarrow> (Inl e, st\<lparr>st_fs := t, st_tmpnames := ns\<rparr>)
           | Inr t' \<Rightarrow> (Inr fname, st\<lparr>st_fs := t', st_tmpnames := ns\<rparr>)))"

text \<open>
  The names of \<^verbatim>\<open>vendor.py\<close>'s module namespace that are bound to a string. The module
  binds \<^verbatim>\<open>os\<close>, \<^verbatim>\<open>sys\<close>, \<^verbatim>\<open>shutil\<close>, \<^verbatim>\<open>tempfile\<close>, \<^verbatim>\<open>VendorError\<close>, \<^verbatim>\<open>__all__\<close>,
  \<^verbatim>\<open>GLOBAL_VENDOR_HANDLERS\<close>, \<^verbatim>\<open>_tempdir\<close> and \<^verbatim>\<open>Vendor\<close>, none of them a string, and
  what \<^verbatim>\<open>from couchapp.utils import *\<close> brings, a module that is not among the source
  files and is taken to export no name \<^verbatim>\<open>p\<close>. A name that is neither a local variable
  nor found here raises NameError.
\<close>

definition module_strings :: "(string \<times> string) list" where
  "module_strings = []"

type_synonym vbundle = "string \<times> string \<times> meta"

text \<open>
  The scan of the staging directory (lines 123 to 133). The loop variable is \<^verbatim>\<open>name\<close>;
  the path is built from \<^verbatim>\<open>p\<close>, which \<^verbatim>\<open>fetch_vendor\<close> never assigns, so \<^verbatim>\<open>p\<close> is
  looked up in the module namespace.
\<close>

fun fetch_scan :: "json \<Rightarrow> string \<Rightarrow> string list \<Rightarrow> vbundle list \<Rightarrow> state \<Rightarrow> (vbundle list) result" where
  "fetch_scan uri path [] vendors st = (Inr vendors, st)"
| "fetch_scan uri path (name # names) vendors st =
     (case map_of module_strings ''p'' of
        None \<Rightarrow> (Inl (NameError ''p''), st)
      | Some p \<Rightarrow>
          (let vpath = path_join path p;
               metaf = path_join vpath ''metadata.json''
           in if \<not> isfile (st_fs st) metaf then fetch_scan uri path names vendors st
              else (case read_json (st_fs st) metaf of
                      Inl e \<Rightarrow> (Inl e, st)
                    | Inr m \<Rightarrow>
                        (case unlink (st_fs st) metaf of
                           Inl e \<Rightarrow> (Inl e, st)
                         | Inr t \<Rightarrow>
                             fetch_scan uri path names
                               (vendors @ [(name, vpath, dict_set m ''fetch_uri'' uri)])
                               (st\<lparr>st_fs := t\<rparr>)))))"

text \<open>\<^verbatim>\<open>fetch_vendor\<close> from line 120 on, once the handler \<open>fetchfun\<close> is at hand.\<close>

definition fetch_staged :: "fetchfun \<Rightarrow> json \<Rightarrow> state \<Rightarrow> (vbundle list \<times> string) result" where
  "fetch_staged fetchfun uri =
     bindM tempdir (\<lambda>path.
     bindM (fetchfun uri path) (\<lambda>_.
     bindM (fs_read (\<lambda>t. listdir t path)) (\<lambda>names.
     bindM (fetch_scan uri path names []) (\<lambda>vendors.
       if vendors = []
       then bindM (ui_deltree path) (\<lambda>_. raiseM (VendorError ''Invalid vendor, medata not found.''))
       else returnM (vendors, path)))))"

text \<open>
  The methods of class \<^verbatim>\<open>Vendor\<close> that take a URI and return a handler. The class
  defines \<^verbatim>\<open>__init__\<close>, \<^verbatim>\<open>load_vendors\<close>, \<^verbatim>\<open>find_handler\<close>, \<^verbatim>\<open>installed_vendors\<close>,
  \<^verbatim>\<open>fetch_vendor\<close>, \<^verbatim>\<open>install\<close> and \<^verbatim>\<open>update\<close>, its instances carry \<^verbatim>\<open>ui\<close>,
  \<^verbatim>\<open>vendor_handlers\<close>, \<^verbatim>\<open>scheme\<close> and \<^verbatim>\<open>vendors\<close>, and there is no \<^verbatim>\<open>__getattr__\<close>:
  looking up any other attribute raises AttributeError.
\<close>

definition Vendor_resolvers :: "(string \<times> (vendor \<Rightarrow> json \<Rightarrow> error + fetchfun)) list" where
  "Vendor_resolvers = [(''find_handler'', find_handler)]"

text \<open>\<^verbatim>\<open>fetch_vendor\<close>: line 118 calls \<^verbatim>\<open>self.find_vendor(uri)\<close>.\<close>

definition fetch_vendor :: "vendor \<Rightarrow> json \<Rightarrow> state \<Rightarrow> (vbundle list \<times> string) result" where
  "fetch_vendor self uri st =
     (case map_of Vendor_resolvers ''find_vendor'' of
        None \<Rightarrow> (Inl (AttributeError ''find_vendor''), st)
      | Some resolve \<Rightarrow>
          (case resolve self uri of
             Inl e \<Rightarrow> (Inl e, st)
           | Inr fetchfun \<Rightarrow> fetch_staged fetchfun uri st))"

section \<open>Install\<close>

definition ensure_vendordir :: "string \<Rightarrow> state \<Rightarrow> unit result" where
  "ensure_vendordir vendordir st =
     (if \<not> isdir (st_fs st) vendordir then fs_update (\<lambda>t. makedirs t vendordir) st
      else (Inr (), st))"

text \<open>
  \<^verbatim>\<open>name = meta.get('name', name)\<close> followed by \<^verbatim>\<open>os.path.join(vendordir, name)\<close>: the
  join needs a string.
\<close>

definition bundle_name :: "meta \<Rightarrow> string \<Rightarrow> error + string" where
  "bundle_name m name =
     (case map_of m ''name'' of
        None \<Rightarrow> Inr name
      | Some (JStr s) \<Rightarrow> Inr s
      | Some _ \<Rightarrow> Inl (AttributeError ''startswith''))"

text \<open>
  The three statements every branch that installs repeats:
  \<^verbatim>\<open>shutil.copy(path, dest); self.ui.write_json(metaf, meta)\<close> and the info message
  under \<^verbatim>\<open>verbose >= 1\<close>.
\<close>

definition place_bundle :: "ui \<Rightarrow> string \<Rightarrow> string \<Rightarrow> string \<Rightarrow> meta \<Rightarrow> string \<Rightarrow> state \<Rightarrow> unit result" where
  "place_bundle u path dest metaf m msg =
     bindM (fs_update (\<lambda>t. shutil_copy t path dest)) (\<lambda>_.
     bindM (fs_update (\<lambda>t. write_json t metaf m)) (\<lambda>_.
     info_if_verbose u msg))"

text \<open>The body of the loop of \<^verbatim>\<open>install\<close> (lines 151 to 167) for one bundle.\<close>

definition install_bundle :: "ui \<Rightarrow> string \<Rightarrow> bool \<Rightarrow> vbundle \<Rightarrow> state \<Rightarrow> unit result" where
  "install_bundle u vendordir should_force b st =
     (case b of (name, path, m) \<Rightarrow>
        (case bundle_name m name of
           Inl e \<Rightarrow> (Inl e, st)
         | Inr name' \<Rightarrow>
             (let dest = path_join vendordir name';
                  metaf = path_join dest ''metadata.json''
              in if isdir (st_fs st) dest
                 then bindM
                        (if should_force
                         then bindM (ui_deltree dest) (\<lambda>_.
                                place_bundle u path dest metaf m ''%s installed in vendors'')
                         else returnM ())
                        (\<lambda>_. logger_error (''vendor: '' @ name' @ '' already installed'')) st
                 else place_bundle u path dest metaf m ''%s installed in vendors'' st)))"

fun install_loop :: "ui \<Rightarrow> string \<Rightarrow> bool \<Rightarrow> vbundle list \<Rightarrow> state \<Rightarrow> unit result" where
  "install_loop u vendordir should_force [] st = (Inr (), st)"
| "install_loop u vendordir should_force (b # bs) st =
     (case install_bundle u vendordir should_force b st of
        (Inl e, st') \<Rightarrow> (Inl e, st')
      | (Inr _, st') \<Rightarrow> install_loop u vendordir should_force bs st')"

text \<open>\<^verbatim>\<open>install\<close> from line 150 on, with what \<^verbatim>\<open>fetch_vendor\<close> returned.\<close>

definition install_reconcile :: "ui \<Rightarrow> string \<Rightarrow> bool \<Rightarrow> vbundle list \<Rightarrow> string \<Rightarrow> state \<Rightarrow> int result" where
  "install_reconcile u vendordir should_force new_vendors temppath =
     bindM (install_loop u vendordir should_force new_vendors) (\<lambda>_.
     bindM (ui_deltree temppath) (\<lambda>_.
     returnM 0))"

definition install :: "vendor \<Rightarrow> string \<Rightarrow> string \<Rightarrow> bool \<Rightarrow> state \<Rightarrow> int result" where
  "install self appdir uri should_force =
     (let vendordir = path_join appdir ''vendor'' in
      bindM (ensure_vendordir vendordir) (\<lambda>_.
      bindM (fetch_vendor self (JStr uri)) (\<lambda>(new_vendors, temppath).
      install_reconcile (v_ui self) vendordir should_force new_vendors temppath)))"

section \<open>Update\<close>

text \<open>The loop of the single-name update (lines 187 to 196); it stops at the first match.\<close>

fun update_one_loop :: "ui \<Rightarrow> string \<Rightarrow> string \<Rightarrow> string \<Rightarrow> vbundle list \<Rightarrow> state \<Rightarrow> unit result" where
  "update_one_loop u name dest metaf [] st = (Inr (), st)"
| "update_one_loop u name dest metaf ((vname, vpath, vmeta) # rest) st =
     (if name \<noteq> vname then update_one_loop u name dest metaf rest st
      else bindM (ui_deltree dest) (\<lambda>_.
             place_bundle u vpath dest metaf vmeta (name @ '' updated in vendors'')) st)"

text \<open>Lines 187 to 198, with what \<^verbatim>\<open>fetch_vendor\<close> returned.\<close>

definition update_one_reconcile ::
  "ui \<Rightarrow> string \<Rightarrow> string \<Rightarrow> string \<Rightarrow> vbundle list \<Rightarrow> string \<Rightarrow> state \<Rightarrow> unit result" where
  "update_one_reconcile u name dest metaf new_vendors temppath =
     bindM (update_one_loop u name dest metaf new_vendors) (\<lambda>_. ui_deltree temppath)"

definition update_one :: "vendor \<Rightarrow> string \<Rightarrow> string \<Rightarrow> state \<Rightarrow> unit result" where
  "update_one self vendordir name =
     bindM (fs_read (\<lambda>t. installed_vendors t vendordir)) (\<lambda>vs.
       if name \<notin> set vs
       then raiseM (VendorError (''vendor `'' @ name @ ''` doesn't exist''))
       else (let dest = path_join vendordir name;
                 metaf = path_join dest ''metadata.json''
             in bindM (fs_read (\<lambda>t. read_json t metaf)) (\<lambda>m.
                  let uri = dict_get m ''fetch_uri'' (JStr [])
                  in if \<not> truthy uri
                     then raiseM (VendorError (''Can't update vendor `'' @ name @ ''`: fetch_uri undefined.''))
                     else bindM (fetch_vendor self uri) (\<lambda>(new_vendors, temppath).
                            update_one_reconcile (v_ui self) name dest metaf new_vendors temppath))))"

text \<open>
  The inner loop of the bulk update (lines 215 to 231). \<^verbatim>\<open>dest1\<close> is a local variable of
  \<^verbatim>\<open>update\<close> that line 216 reads on its own right-hand side: \<open>None\<close> while it is unbound.
  The loop returns the list \<^verbatim>\<open>updated\<close> and the binding of \<^verbatim>\<open>dest1\<close>.
\<close>

fun update_all_inner ::
  "ui \<Rightarrow> string \<Rightarrow> bool \<Rightarrow> vbundle list \<Rightarrow> string list \<Rightarrow> string option \<Rightarrow> state \<Rightarrow>
   (string list \<times> string option) result" where
  "update_all_inner u vendordir should_force [] updated dest1 st = (Inr (updated, dest1), st)"
| "update_all_inner u vendordir should_force ((vname, vpath, vmeta) # rest) updated dest1 st =
     (case dest1 of
        None \<Rightarrow> (Inl (UnboundLocalError ''dest1''), st)
      | Some d \<Rightarrow>
          (let dest1' = path_join vendordir d;
               metaf1 = path_join dest1' ''metadata.json''
           in if isdir (st_fs st) dest1'
              then (case bindM (ui_deltree dest1') (\<lambda>_.
                           place_bundle u vpath dest1' metaf1 vmeta (vname @ '' updated in vendors'')) st of
                      (Inl e, st') \<Rightarrow> (Inl e, st')
                    | (Inr _, st') \<Rightarrow>
                        update_all_inner u vendordir should_force rest (updated @ [vname]) (Some dest1') st')
              else if should_force
              then (case place_bundle u vpath dest1' metaf1 vmeta (vname @ '' installed in vendors'') st of
                      (Inl e, st') \<Rightarrow> (Inl e, st')
                    | (Inr _, st') \<Rightarrow>
                        update_all_inner u vendordir should_force rest (updated @ [vname]) (Some dest1') st')
              else update_all_inner u vendordir should_force rest updated (Some dest1') st))"

text \<open>
  The outer loop of the bulk update (lines 201 to 232) over the list
  \<^verbatim>\<open>installed_vendors\<close> returned. \<^verbatim>\<open>self.ui.logget\<close> (line 211) names an attribute the ui
  collaborator of the spec does not have (it has \<^verbatim>\<open>logger\<close>).
\<close>

fun update_all_loop ::
  "vendor \<Rightarrow> string \<Rightarrow> bool \<Rightarrow> string list \<Rightarrow> string list \<Rightarrow> string option \<Rightarrow> state \<Rightarrow> unit result" where
  "update_all_loop self vendordir should_force [] updated dest1 st = (Inr (), st)"
| "update_all_loop self vendordir should_force (vendor # rest) updated dest1 st =
     (if vendor \<in> set updated then update_all_loop self vendordir should_force rest updated dest1 st
      else (let dest = path_join vendordir vendor;
                metaf = path_join dest ''metadata.json''
            in case read_json (st_fs st) metaf of
                 Inl e \<Rightarrow> (Inl e, st)
               | Inr m \<Rightarrow>
                   (let uri = dict_get m ''fetch_uri'' (JStr [])
                    in if \<not> truthy uri
                       then (if ui_verbose (v_ui self) \<ge> 1 then (Inl (AttributeError ''logget''), st)
                             else update_all_loop self vendordir should_force rest updated dest1 st)
                       else (case fetch_vendor self uri st of
                               (Inl e, st1) \<Rightarrow> (Inl e, st1)
                             | (Inr (new_vendors, temppath), st1) \<Rightarrow>
                                 (case update_all_inner (v_ui self) vendordir should_force
                                         new_vendors updated dest1 st1 of
                                    (Inl e, st2) \<Rightarrow> (Inl e, st2)
                                  | (Inr (updated', dest1'), st2) \<Rightarrow>
                                      update_all_loop self vendordir should_force rest updated' dest1'
                                        (st2\<lparr>st_fs := deltree (st_fs st2) temppath\<rparr>))))))"

definition update_all :: "vendor \<Rightarrow> string \<Rightarrow> bool \<Rightarrow> state \<Rightarrow> unit result" where
  "update_all self vendordir should_force =
     bindM (fs_read (\<lambda>t. installed_vendors t vendordir)) (\<lambda>vs.
       update_all_loop self vendordir should_force vs [] None)"

definition update :: "vendor \<Rightarrow> string \<Rightarrow> string option \<Rightarrow> bool \<Rightarrow> state \<Rightarrow> int result" where
  "update self appdir name should_force =
     (let vendordir = path_join appdir ''vendor'' in
      bindM (ensure_vendordir vendordir) (\<lambda>_.
      bindM (case name of
               Some n \<Rightarrow> update_one self vendordir n
             | None \<Rightarrow> update_all self vendordir should_force) (\<lambda>_.
      returnM 0)))"

section \<open>Successive constructions\<close>

text \<open>
  The keys of the handler table that the configuration of a ui can write when a Vendor
  is constructed for it.
\<close>

definition conf_keys :: "ui \<Rightarrow> string list" where
  "conf_keys u =
     (case map_of (ui_conf u) ''vendor_handlers'' of
        Some (ConfDict kvs) \<Rightarrow> map fst kvs
      | Some (ConfSeq elems) \<Rightarrow> map hd (filter (\<lambda>e. length e = 2) elems)
      | _ \<Rightarrow> [])"

text \<open>
  The module-level handler table after a Vendor has been constructed for each ui of a
  list in turn, in one process (whether or not a constructor raised).
\<close>

definition handlers_after :: "modules \<Rightarrow> ui list \<Rightarrow> (string \<times> string) list \<Rightarrow> (string \<times> string) list" where
  "handlers_after mods us g = fold (\<lambda>u acc. snd (Vendor_init u mods acc)) us g"

section \<open>Example collaborators and states\<close>

text \<open>
  Concrete handlers, modules and file systems on which the definitions are evaluated.
  The handlers write below the names of the staging path they are given (\<open>components\<close>,
  for a path without \<^verbatim>\<open>..\<close>).
  \<open>stage_lib\<close> stages one bundle directory \<^verbatim>\<open>lib\<close> with a metadata file,
  \<open>stage_nothing\<close> creates the staging directory and nothing in it, \<open>stage_plain\<close>
  stages a directory \<^verbatim>\<open>doc\<close> that has no metadata file.
\<close>

definition components :: "string \<Rightarrow> string list" where
  "components p = filter (\<lambda>w. w \<noteq> [] \<and> w \<noteq> ''.'') (split_slash p)"

definition stage_lib :: fetchfun where
  "stage_lib uri path st =
     (Inr (), st\<lparr>st_fs := st_fs st @
        [(components path, EDir),
         (components path @ [''lib''], EDir),
         (components path @ [''lib'', ''metadata.json''], EFile (JsonObject [(''name'', JStr ''lib'')])),
         (components path @ [''lib'', ''lib.js''], EFile (Bytes ''new''))]\<rparr>)"

definition stage_nothing :: fetchfun where
  "stage_nothing uri path st = (Inr (), st\<lparr>st_fs := st_fs st @ [(components path, EDir)]\<rparr>)"

definition stage_plain :: fetchfun where
  "stage_plain uri path st =
     (Inr (), st\<lparr>st_fs := st_fs st @
        [(components path, EDir),
         (components path @ [''doc''], EDir),
         (components path @ [''doc'', ''README''], EFile (Bytes ''text''))]\<rparr>)"

definition example_modules :: modules where
  "example_modules =
     [(''couchapp.couchdbvendor'',
         \<lparr>mod_name = None, mod_copyright = Some ''c'', mod_help = Some ''h'',
          mod_scheme = Some [''couchdb''], mod_fetch = Some stage_nothing\<rparr>),
      (''couchapp.gitvendor'',
         \<lparr>mod_name = Some ''git'', mod_copyright = Some ''c'', mod_help = Some ''h'',
          mod_scheme = Some [''git'', ''git+ssh''], mod_fetch = Some stage_lib\<rparr>),
      (''couchapp.hgvendor'',
         \<lparr>mod_name = None, mod_copyright = Some ''c'', mod_help = Some ''h'',
          mod_scheme = None, mod_fetch = None\<rparr>),
      (''my.gitvendor'',
         \<lparr>mod_name = Some ''mygit'', mod_copyright = Some ''c'', mod_help = Some ''h'',
          mod_scheme = Some [''git''], mod_fetch = Some stage_plain\<rparr>)]"

definition example_ui :: ui where
  "example_ui = \<lparr>ui_verbose = 1, ui_conf = []\<rparr>"

definition override_ui :: ui where
  "override_ui =
     \<lparr>ui_verbose = 0, ui_conf = [(''vendor_handlers'', ConfDict [(''git'', ''my.gitvendor'')])]\<rparr>"

text \<open>The object \<^verbatim>\<open>Vendor(example_ui)\<close>, see \<open>example_vendor_init\<close> below.\<close>

definition example_vendor :: vendor where
  "example_vendor =
     \<lparr>v_ui = example_ui, v_vendor_handlers = GLOBAL_VENDOR_HANDLERS,
      v_scheme = [(''couchdb'', stage_nothing), (''git'', stage_lib), (''git+ssh'', stage_lib)],
      v_vendors = [(''couchdb'', ''c'', ''h''), (''git'', ''c'', ''h'')]\<rparr>"

text \<open>
  The object \<^verbatim>\<open>Vendor(example_ui)\<close> when a Vendor for \<open>override_ui\<close> was constructed
  before it in the same process: the handler \<^verbatim>\<open>git\<close> is the overriding module.
\<close>

definition overridden_vendor :: vendor where
  "overridden_vendor =
     \<lparr>v_ui = example_ui,
      v_vendor_handlers =
        [(''couchdb'', ''couchapp.couchdbvendor''), (''git'', ''my.gitvendor''),
         (''hg'', ''couchapp.hgvendor'')],
      v_scheme = [(''couchdb'', stage_nothing), (''git'', stage_plain)],
      v_vendors = [(''couchdb'', ''c'', ''h''), (''mygit'', ''c'', ''h'')]\<rparr>"

definition lib_meta :: meta where
  "lib_meta = [(''name'', JStr ''lib''), (''fetch_uri'', JStr ''git://host/lib'')]"

text \<open>An application directory with no vendor directory yet.\<close>

definition fresh_state :: state where
  "fresh_state =
     \<lparr>st_fs = [([''tmp''], EDir), ([''app''], EDir)],
      st_log = [], st_tmpnames = [''/tmp/tmpA1'']\<rparr>"

text \<open>An application with the vendor \<^verbatim>\<open>lib\<close> installed from \<^verbatim>\<open>git://host/lib\<close>.\<close>

definition installed_fs :: filesystem where
  "installed_fs =
     [([''tmp''], EDir), ([''app''], EDir), ([''app'', ''vendor''], EDir),
      ([''app'', ''vendor'', ''lib''], EDir),
      ([''app'', ''vendor'', ''lib'', ''metadata.json''], EFile (JsonObject lib_meta)),
      ([''app'', ''vendor'', ''lib'', ''lib.js''], EFile (Bytes ''old''))]"

definition installed_state :: state where
  "installed_state = \<lparr>st_fs = installed_fs, st_log = [], st_tmpnames = [''/tmp/tmpA1'']\<rparr>"

text \<open>
  The staging directory \<^verbatim>\<open>/tmp/tmpA1\<close> as a fetch of \<open>stage_lib\<close> would hand it over
  (the staged metadata file read and removed), and the bundle list that goes with it.
\<close>

definition staging_fs :: filesystem where
  "staging_fs =
     [([''tmp'', ''tmpA1''], EDir),
      ([''tmp'', ''tmpA1'', ''lib''], EDir),
      ([''tmp'', ''tmpA1'', ''lib'', ''lib.js''], EFile (Bytes ''new''))]"

definition staged_bundles :: "vbundle list" where
  "staged_bundles = [(''lib'', ''/tmp/tmpA1/lib'', lib_meta)]"

definition staged_state :: state where
  "staged_state = \<lparr>st_fs = installed_fs @ staging_fs, st_log = [], st_tmpnames = []\<rparr>"

definition fresh_staged_state :: state where
  "fresh_staged_state =
     \<lparr>st_fs = [([''tmp''], EDir), ([''app''], EDir), ([''app'', ''vendor''], EDir)] @ staging_fs,
      st_log = [], st_tmpnames = []\<rparr>"

text \<open>The vendor \<^verbatim>\<open>lib\<close> installed, its metadata without a \<^verbatim>\<open>fetch_uri\<close>.\<close>

definition nouri_state :: state where
  "nouri_state =
     \<lparr>st_fs =
        [([''tmp''], EDir), ([''app''], EDir), ([''app'', ''vendor''], EDir),
         ([''app'', ''vendor'', ''lib''], EDir),
         ([''app'', ''vendor'', ''lib'', ''metadata.json''], EFile (JsonObject [(''name'', JStr ''lib'')])),
         ([''app'', ''vendor'', ''lib'', ''lib.js''], EFile (Bytes ''old''))],
      st_log = [], st_tmpnames = [''/tmp/tmpA1'']\<rparr>"

text \<open>Two vendors installed from two different sources.\<close>

definition two_vendor_state :: state where
  "two_vendor_state =
     \<lparr>st_fs = installed_fs @
        [([''app'', ''vendor'', ''extra''], EDir),
         ([''app'', ''vendor'', ''extra'', ''metadata.json''],
            EFile (JsonObject [(''name'', JStr ''extra''), (''fetch_uri'', JStr ''git://host/extra'')]))],
      st_log = [], st_tmpnames = [''/tmp/tmpA1'', ''/tmp/tmpA2'']\<rparr>"

section \<open>Evaluation rules and general facts\<close>

lemmas monad_defs = bindM_def returnM_def raiseM_def fs_update_def fs_read_def ui_deltree_def
  logger_info_def logger_error_def info_if_verbose_def

lemmas path_defs = path_join_def components_def basename_def

lemmas fs_defs = locate_def stat_def fs_exists_def isdir_def isfile_def children_def listdir_def
  makedirs_def unlink_def write_file_def samefile_def shutil_copy_def read_json_def write_json_def
  deltree_def

lemmas example_defs = stage_lib_def stage_nothing_def stage_plain_def example_modules_def
  example_ui_def override_ui_def example_vendor_def overridden_vendor_def lib_meta_def fresh_state_def installed_fs_def
  installed_state_def staging_fs_def staged_bundles_def staged_state_def fresh_staged_state_def
  nouri_state_def two_vendor_state_def

text \<open>
  \<open>example_vendor\<close> is what the constructor builds from the built-in handler table when
  the three built-in modules are \<open>example_modules\<close>.
\<close>

lemma example_vendor_init:
  "Vendor_init example_ui example_modules GLOBAL_VENDOR_HANDLERS =
     (Inr example_vendor, GLOBAL_VENDOR_HANDLERS)"
  by (simp add: Vendor_init_def load_vendors_def GLOBAL_VENDOR_HANDLERS_def example_defs)

text \<open>
  Class \<^verbatim>\<open>Vendor\<close> has no attribute \<^verbatim>\<open>find_vendor\<close>, so \<^verbatim>\<open>fetch_vendor\<close> raises
  AttributeError at its first statement, whatever the URI and the state, and leaves
  the state as it found it.
\<close>

lemma fetch_vendor_raises:
  "fetch_vendor self uri st = (Inl (AttributeError ''find_vendor''), st)"
  by (simp add: fetch_vendor_def Vendor_resolvers_def)

text \<open>\<^verbatim>\<open>find_handler\<close> itself rejects a scheme that has no handler with VendorError.\<close>

lemma find_handler_unknown_scheme:
  "map_of (v_scheme self) (scheme_of u) = None \<Longrightarrow>
   find_handler self (JStr u) = Inl (VendorError (''unkonw vendor url scheme: '' @ u))"
  by (simp add: find_handler_def)

lemma find_handler_known_scheme:
  "map_of (v_scheme self) (scheme_of u) = Some f \<Longrightarrow> find_handler self (JStr u) = Inr f"
  by (simp add: find_handler_def)

section \<open>What a fetch does\<close>

text \<open>
  C1: for a URI whose scheme has no registered handler, fetching fails with the
  unknown-scheme VendorError before any staging directory is created. The code does
  not do this: \<^verbatim>\<open>find_handler\<close> raises that VendorError for \<^verbatim>\<open>svn://host/lib\<close>, but
  \<^verbatim>\<open>fetch_vendor\<close> never calls it (line 118 calls \<^verbatim>\<open>self.find_vendor\<close>) and fails with
  AttributeError instead. The state is unchanged: no staging directory is created.
\<close>

theorem fetch_unknown_scheme_raises_AttributeError:
  "find_handler example_vendor (JStr ''svn://host/lib'') =
     Inl (VendorError ''unkonw vendor url scheme: svn://host/lib'')
   \<and> fetch_vendor example_vendor (JStr ''svn://host/lib'') fresh_state =
     (Inl (AttributeError ''find_vendor''), fresh_state)"
  by (simp add: fetch_vendor_raises find_handler_def example_vendor_def)

text \<open>
  From line 120 on, a handler that leaves the staging directory empty does lead to the
  VendorError "metadata not found" with the staging directory removed: the file system
  is the one before the fetch.
\<close>

lemma fetch_staged_nothing:
  "fetch_staged stage_nothing (JStr ''couchdb://host/db'') fresh_state =
     (Inl (VendorError ''Invalid vendor, medata not found.''), fresh_state\<lparr>st_tmpnames := []\<rparr>)"
  by (simp add: fetch_staged_def tempdir_def monad_defs path_defs fs_defs example_defs)

text \<open>
  C2: a fetch whose handler stages no subdirectory with a metadata file raises the
  VendorError "metadata not found" and removes the staging directory first. The code
  does not do this. \<^verbatim>\<open>fetch_vendor\<close> on a URI of the registered scheme \<^verbatim>\<open>couchdb\<close>,
  whose handler stages nothing, raises AttributeError before the handler is called; and
  from line 120 on, a handler that stages a directory without metadata makes the scan
  raise NameError for \<^verbatim>\<open>p\<close> with the staging directory \<^verbatim>\<open>/tmp/tmpA1\<close> left behind.
\<close>

theorem fetch_without_metadata_raises_other_errors:
  "fetch_vendor example_vendor (JStr ''couchdb://host/db'') fresh_state =
     (Inl (AttributeError ''find_vendor''), fresh_state)
   \<and> fst (fetch_staged stage_plain (JStr ''git://host/doc'') fresh_state) = Inl (NameError ''p'')
   \<and> fs_exists (st_fs (snd (fetch_staged stage_plain (JStr ''git://host/doc'') fresh_state))) ''/tmp/tmpA1''"
  by (simp add: fetch_vendor_raises fetch_staged_def tempdir_def monad_defs path_defs fs_defs
      example_defs module_strings_def)

section \<open>What install does\<close>

text \<open>
  \<^verbatim>\<open>shutil.copy\<close> on a source that is a directory raises, whatever the destination; so
  the three installing statements raise at the first of them, in the state they started
  in, whenever the staged path of the bundle is a directory.
\<close>

lemma shutil_copy_directory: "isdir t src \<Longrightarrow> \<exists>e. shutil_copy t src dst = Inl e"
  by (auto simp: shutil_copy_def isdir_def Let_def split: sum.splits entry.splits)

lemma place_bundle_directory:
  "isdir (st_fs st) path \<Longrightarrow> \<exists>e. place_bundle u path dest metaf m msg st = (Inl e, st)"
  using shutil_copy_directory [of "st_fs st" path dest]
  by (auto simp: place_bundle_def bindM_def fs_update_def)

text \<open>
  So a bundle that is not installed yet and whose staged path is a directory makes the
  loop of \<^verbatim>\<open>install\<close> raise at that bundle, with nothing changed.
\<close>

lemma install_loop_new_directory_raises:
  assumes "bundle_name m name = Inr n"
      and "\<not> isdir (st_fs st) (path_join vendordir n)"
      and "isdir (st_fs st) path"
  shows "\<exists>e. install_loop u vendordir should_force ((name, path, m) # rest) st = (Inl e, st)"
proof -
  obtain e where "place_bundle u path (path_join vendordir n)
      (path_join (path_join vendordir n) ''metadata.json'') m ''%s installed in vendors'' st = (Inl e, st)"
    using place_bundle_directory [OF assms(3)] by blast
  with assms(1,2) show ?thesis
    by (simp add: install_bundle_def Let_def)
qed

text \<open>\<^verbatim>\<open>install\<close> never returns a status: it raises on every input.\<close>

lemma install_always_raises:
  "\<exists>e st'. install self appdir uri should_force st = (Inl e, st')"
  by (auto simp: install_def Let_def bindM_def fetch_vendor_raises split: prod.splits sum.splits)

text \<open>
  C3: installing a bundle whose destination \<^verbatim>\<open>app/vendor/lib\<close> does not exist yet, with
  a fetch that succeeds, leaves \<^verbatim>\<open>app/vendor/lib/metadata.json\<close> with the \<^verbatim>\<open>fetch_uri\<close>
  of the call, removes the staging directory and returns 0. The code does not do this.
  \<^verbatim>\<open>install\<close> creates \<^verbatim>\<open>app/vendor\<close> and then raises AttributeError in \<^verbatim>\<open>fetch_vendor\<close>;
  and from line 150 on, given the bundle list and the staging directory a fetch of the
  bundle \<^verbatim>\<open>lib\<close> hands over, line 164 calls \<^verbatim>\<open>shutil.copy\<close> on the staged bundle
  directory, which raises IOError: nothing is written, the staging directory stays and
  no status is returned.
\<close>

theorem install_new_bundle_raises:
  "install example_vendor ''app'' ''git://host/lib'' False fresh_state =
     (Inl (AttributeError ''find_vendor''),
      fresh_state\<lparr>st_fs := st_fs fresh_state @ [([''app'', ''vendor''], EDir)]\<rparr>)
   \<and> install_reconcile example_ui ''app/vendor'' False staged_bundles ''/tmp/tmpA1'' fresh_staged_state =
     (Inl (IOError ''EISDIR''), fresh_staged_state)"
  by (simp add: install_def install_reconcile_def install_bundle_def bundle_name_def
      ensure_vendordir_def place_bundle_def fetch_vendor_raises monad_defs path_defs fs_defs
      example_defs Let_def)

text \<open>
  Given a bundle whose destination directory exists already, with \<^verbatim>\<open>force\<close> false, the
  loop of \<^verbatim>\<open>install\<close> (lines 150 to 162) leaves the file system as it is, hands exactly
  one error "vendor: n already installed" to the logger, and goes on with the bundles
  that follow. Here \<open>n\<close> is the name the bundle is installed under (the \<^verbatim>\<open>name\<close> entry
  of its metadata, else the name of its staged directory).
\<close>

lemma install_loop_existing_without_force:
  assumes "bundle_name m name = Inr n"
      and "isdir (st_fs st) (path_join vendordir n)"
  shows "install_bundle u vendordir False (name, path, m) st =
           (Inr (), st\<lparr>st_log := st_log st @ [LogError (''vendor: '' @ n @ '' already installed'')]\<rparr>)
         \<and> install_loop u vendordir False ((name, path, m) # rest) st =
           install_loop u vendordir False rest
             (st\<lparr>st_log := st_log st @ [LogError (''vendor: '' @ n @ '' already installed'')]\<rparr>)"
  using assms by (simp add: install_bundle_def bindM_def returnM_def logger_error_def Let_def)

lemma install_loop_existing_without_force_example:
  "install_loop example_ui ''app/vendor'' False staged_bundles staged_state =
     (Inr (), staged_state\<lparr>st_log := [LogError ''vendor: lib already installed'']\<rparr>)"
  by (simp add: install_bundle_def bundle_name_def monad_defs path_defs fs_defs example_defs Let_def)

text \<open>
  C4: installing a bundle whose destination directory exists already, with \<^verbatim>\<open>force\<close>
  false, leaves the destination unchanged, emits exactly one "already installed" error
  and goes on with the next bundle. The code does not do this. With \<^verbatim>\<open>lib\<close> installed
  in \<^verbatim>\<open>app/vendor\<close> and a handler for \<^verbatim>\<open>git\<close> that stages the bundle \<^verbatim>\<open>lib\<close>,
  \<^verbatim>\<open>install\<close> raises AttributeError in \<^verbatim>\<open>fetch_vendor\<close> (line 149 into line 118): the
  destination is unchanged, but the log is empty, no error "already installed" is
  emitted, and no bundle is processed.
\<close>

theorem install_existing_without_force_emits_nothing:
  "install example_vendor ''app'' ''git://host/lib'' False installed_state =
     (Inl (AttributeError ''find_vendor''), installed_state)
   \<and> st_log (snd (install example_vendor ''app'' ''git://host/lib'' False installed_state)) = []"
  by (simp add: install_def ensure_vendordir_def fetch_vendor_raises monad_defs path_defs fs_defs
      example_defs Let_def)

text \<open>
  C5: with \<^verbatim>\<open>force\<close> true and the destination present, the destination tree is deleted
  and replaced by the staged contents, its metadata file is rewritten, "installed" is
  logged, and the "already installed" error is emitted as well. The code does not do
  this. \<^verbatim>\<open>install\<close> raises AttributeError in \<^verbatim>\<open>fetch_vendor\<close> with nothing changed; and
  from line 150 on, line 156 deletes \<^verbatim>\<open>app/vendor/lib\<close> and line 157 raises IOError
  (\<^verbatim>\<open>shutil.copy\<close> on the staged bundle directory): the old vendor is gone, nothing
  replaces it, nothing is logged and the staging directory stays.
\<close>

theorem install_forced_deletes_and_raises:
  "install example_vendor ''app'' ''git://host/lib'' True installed_state =
     (Inl (AttributeError ''find_vendor''), installed_state)
   \<and> install_reconcile example_ui ''app/vendor'' True staged_bundles ''/tmp/tmpA1'' staged_state =
     (Inl (IOError ''EISDIR''),
      staged_state\<lparr>st_fs :=
        [([''tmp''], EDir), ([''app''], EDir), ([''app'', ''vendor''], EDir)] @ staging_fs\<rparr>)"
  by (simp add: install_def install_reconcile_def install_bundle_def bundle_name_def
      ensure_vendordir_def place_bundle_def fetch_vendor_raises monad_defs path_defs fs_defs
      example_defs Let_def)

section \<open>What update does\<close>

text \<open>
  When no fetched bundle carries the requested name, the loop of the single-name update
  changes nothing and logs nothing.
\<close>

lemma update_one_loop_no_match:
  "name \<notin> fst ` set new_vendors \<Longrightarrow>
   update_one_loop u name dest metaf new_vendors st = (Inr (), st)"
  by (induction new_vendors) auto

text \<open>The single-name update never returns a status either.\<close>

lemma update_one_always_raises:
  "\<exists>e st'. update_one self vendordir name st = (Inl e, st')"
  by (auto simp: update_one_def Let_def bindM_def raiseM_def fs_read_def fetch_vendor_raises
      split: prod.splits sum.splits)

lemma update_named_always_raises:
  "\<exists>e st'. update self appdir (Some name) should_force st = (Inl e, st')"
proof (cases "ensure_vendordir (path_join appdir ''vendor'') st")
  case (Pair r s1)
  show ?thesis
  proof (cases r)
    case (Inl e)
    with Pair show ?thesis by (simp add: update_def Let_def bindM_def)
  next
    case (Inr x)
    obtain e s2 where "update_one self (path_join appdir ''vendor'') name s1 = (Inl e, s2)"
      using update_one_always_raises by blast
    with Pair Inr show ?thesis by (simp add: update_def Let_def bindM_def)
  qed
qed

text \<open>
  C6: a single-name update whose re-fetch succeeds installs the fetched bundle of that
  name (old directory deleted, staged contents copied in, metadata overwritten),
  discards the others, changes nothing when none matches, and deletes the staging
  directory either way. The code does not do this for a bundle that matches.
  \<^verbatim>\<open>update\<close> of the installed vendor \<^verbatim>\<open>lib\<close> raises AttributeError in \<^verbatim>\<open>fetch_vendor\<close>;
  and from line 187 on, line 191 deletes \<^verbatim>\<open>app/vendor/lib\<close> and line 192 raises IOError
  (\<^verbatim>\<open>shutil.copy\<close> on the staged bundle directory): the old vendor is gone, nothing
  replaces it and the staging directory stays. The case of no match is
  \<open>update_one_loop_no_match\<close>.
\<close>

theorem update_named_deletes_and_raises:
  "update example_vendor ''app'' (Some ''lib'') False installed_state =
     (Inl (AttributeError ''find_vendor''), installed_state)
   \<and> update_one_reconcile example_ui ''lib'' ''app/vendor/lib'' ''app/vendor/lib/metadata.json''
        staged_bundles ''/tmp/tmpA1'' staged_state =
     (Inl (IOError ''EISDIR''),
      staged_state\<lparr>st_fs :=
        [([''tmp''], EDir), ([''app''], EDir), ([''app'', ''vendor''], EDir)] @ staging_fs\<rparr>)"
  by (simp add: update_def update_one_def update_one_reconcile_def installed_vendors_def dict_get_def
      ensure_vendordir_def place_bundle_def fetch_vendor_raises monad_defs path_defs fs_defs
      example_defs Let_def)

text \<open>A directory that can be listed is a directory.\<close>

lemma listdir_isdir: "listdir t p = Inr xs \<Longrightarrow> isdir t p"
  by (auto simp: listdir_def isdir_def split: sum.splits entry.splits)

lemma installed_vendors_isdir: "installed_vendors t p = Inr vs \<Longrightarrow> isdir t p"
  by (auto simp: installed_vendors_def split: sum.splits dest: listdir_isdir)

text \<open>
  C7: a single-name update of an installed vendor whose metadata has no \<^verbatim>\<open>fetch_uri\<close>
  entry, or an empty one, fails with the VendorError "fetch_uri undefined" and changes
  nothing: the state returned with the error (file system, log, temporary names) is the
  state of the call.
\<close>

theorem update_missing_source:
  assumes "installed_vendors (st_fs st) (path_join appdir ''vendor'') = Inr vs"
      and "name \<in> set vs"
      and "read_json (st_fs st)
             (path_join (path_join (path_join appdir ''vendor'') name) ''metadata.json'') = Inr m"
      and "\<not> truthy (dict_get m ''fetch_uri'' (JStr []))"
  shows "update self appdir (Some name) should_force st =
           (Inl (VendorError (''Can't update vendor `'' @ name @ ''`: fetch_uri undefined.'')), st)"
proof -
  have dir: "isdir (st_fs st) (path_join appdir ''vendor'')"
    using assms(1) by (rule installed_vendors_isdir)
  have "update_one self (path_join appdir ''vendor'') name st =
          (Inl (VendorError (''Can't update vendor `'' @ name @ ''`: fetch_uri undefined.'')), st)"
    using assms by (simp add: update_one_def bindM_def fs_read_def raiseM_def Let_def)
  with dir show ?thesis
    by (simp add: update_def ensure_vendordir_def bindM_def Let_def)
qed

text \<open>The vendor \<^verbatim>\<open>lib\<close> installed with the metadata \<^verbatim>\<open>{"name": "lib"}\<close>.\<close>

theorem update_missing_source_witness:
  "installed_vendors (st_fs nouri_state) (path_join ''app'' ''vendor'') = Inr [''lib'']
   \<and> read_json (st_fs nouri_state) ''app/vendor/lib/metadata.json'' = Inr [(''name'', JStr ''lib'')]
   \<and> \<not> truthy (dict_get [(''name'', JStr ''lib'')] ''fetch_uri'' (JStr []))
   \<and> update example_vendor ''app'' (Some ''lib'') False nouri_state =
       (Inl (VendorError ''Can't update vendor `lib`: fetch_uri undefined.''), nouri_state)"
  using update_missing_source [of nouri_state "''app''" "[''lib'']" "''lib''" "[(''name'', JStr ''lib'')]"
      example_vendor False]
  by (simp add: installed_vendors_def dict_get_def path_defs fs_defs nouri_state_def)

text \<open>
  In the bulk update the first bundle of the first fetch raises: line 216 reads \<^verbatim>\<open>dest1\<close>
  before anything has assigned it.
\<close>

lemma update_all_inner_unbound:
  "update_all_inner u vendordir should_force (b # bs) updated None st =
     (Inl (UnboundLocalError ''dest1''), st)"
  by (cases b) auto

text \<open>
  C8: a bulk update over N installed vendors with pairwise different sources performs
  exactly N cycles of fetch and staging cleanup and never revisits a processed name.
  The code does not do this. With the two vendors \<^verbatim>\<open>lib\<close> and \<^verbatim>\<open>extra\<close> installed,
  \<^verbatim>\<open>update\<close> raises AttributeError in the fetch for the first vendor, with the state
  unchanged: no handler was called and no staging directory made or removed. From line
  215 on, given what the first fetch hands over, the inner loop raises UnboundLocalError
  at its first bundle, before the cleanup of line 232.
\<close>

theorem update_all_raises_at_first_vendor:
  "update example_vendor ''app'' None False two_vendor_state =
     (Inl (AttributeError ''find_vendor''), two_vendor_state)
   \<and> update_all_inner example_ui ''app/vendor'' False staged_bundles [] None staged_state =
     (Inl (UnboundLocalError ''dest1''), staged_state)"
  by (simp add: update_def update_all_def installed_vendors_def dict_get_def
      ensure_vendordir_def fetch_vendor_raises monad_defs path_defs fs_defs
      example_defs Let_def)

section \<open>Cleaning up the staging directory\<close>

text \<open>
  Between a raise in the loop and the exit of \<^verbatim>\<open>install\<close> or of the single-name
  \<^verbatim>\<open>update\<close> no statement runs: the exception leaves with the state of the raise
  (there is no \<^verbatim>\<open>try\<close>/\<^verbatim>\<open>finally\<close> in \<^verbatim>\<open>vendor.py\<close>).
\<close>

lemma install_reconcile_propagates:
  "install_loop u vendordir should_force new_vendors st = (Inl e, st1) \<Longrightarrow>
   install_reconcile u vendordir should_force new_vendors temppath st = (Inl e, st1)"
  by (simp add: install_reconcile_def bindM_def)

lemma update_one_reconcile_propagates:
  "update_one_loop u name dest metaf new_vendors st = (Inl e, st1) \<Longrightarrow>
   update_one_reconcile u name dest metaf new_vendors temppath st = (Inl e, st1)"
  by (simp add: update_one_reconcile_def bindM_def)


section \<open>The handler table across constructions\<close>

lemma map_of_dict_update: "map_of (dict_update g kvs) = map_of g ++ map_of (rev kvs)"
proof (induction kvs arbitrary: g)
  case Nil
  then show ?case by (simp add: dict_update_def)
next
  case (Cons kv kvs)
  obtain k v where kv: "kv = (k, v)" by (cases kv)
  have "dict_update g (kv # kvs) = dict_update (AList.update k v g) kvs"
    by (simp add: dict_update_def kv)
  then have "map_of (dict_update g (kv # kvs)) = map_of (AList.update k v g) ++ map_of (rev kvs)"
    by (simp add: Cons.IH)
  also have "map_of (AList.update k v g) = (map_of g)(k \<mapsto> v)"
    by (rule update_conv')
  finally show ?case
    by (auto simp: kv map_add_def fun_eq_iff split: option.splits)
qed

lemma dict_update_binds:
  assumes "distinct (map fst kvs)" and "(k, v) \<in> set kvs"
  shows "map_of (dict_update g kvs) k = Some v"
proof -
  have "map_of (rev kvs) k = Some v"
    using assms by (simp add: rev_map [symmetric])
  then show ?thesis by (simp add: map_of_dict_update)
qed

lemma dict_update_other:
  "k \<notin> fst ` set kvs \<Longrightarrow> map_of (dict_update g kvs) k = map_of g k"
  by (simp add: map_of_dict_update map_add_def map_of_eq_None_iff [THEN iffD2] split: option.splits)

lemma dict_update_seq_other:
  "k \<notin> set (map hd (filter (\<lambda>e. length e = 2) elems)) \<Longrightarrow>
   map_of (fst (dict_update_seq g elems)) k = map_of g k"
  by (induction g elems rule: dict_update_seq.induct) (auto simp: update_conv')

lemma Vendor_init_other:
  "k \<notin> set (conf_keys u) \<Longrightarrow> map_of (snd (Vendor_init u mods g)) k = map_of g k"
  by (auto simp: Vendor_init_def conf_keys_def dict_update_other dict_update_seq_other
      split: option.splits confval.splits sum.splits prod.splits)

lemma handlers_after_other:
  "\<forall>u \<in> set us. k \<notin> set (conf_keys u) \<Longrightarrow> map_of (handlers_after mods us g) k = map_of g k"
  by (induction us arbitrary: g) (simp_all add: handlers_after_def Vendor_init_other)

lemma Vendor_init_ConfDict:
  "map_of (ui_conf u) ''vendor_handlers'' = Some (ConfDict kvs) \<Longrightarrow>
   snd (Vendor_init u mods g) = dict_update g kvs"
  by (simp add: Vendor_init_def split: sum.splits prod.splits)

lemma Vendor_init_handlers:
  "Vendor_init u mods g = (Inr v, g') \<Longrightarrow> v_vendor_handlers v = g'"
  by (auto simp: Vendor_init_def split: option.splits confval.splits sum.splits prod.splits)

text \<open>
  C10: constructing a Vendor for a ui whose configuration has a \<^verbatim>\<open>vendor_handlers\<close> dict
  \<open>kvs\<close> updates the module-level table itself: the table the constructor leaves behind
  is the old one updated with \<open>kvs\<close>. So an entry \<open>(k, v)\<close> of \<open>kvs\<close> is in the handler
  table of every Vendor \<open>v2\<close> constructed later in the process, after any constructions
  \<open>us\<close> in between, as long as no later configuration writes the key \<open>k\<close> again.
\<close>

theorem override_stays_visible:
  assumes "map_of (ui_conf u1) ''vendor_handlers'' = Some (ConfDict kvs)"
      and "distinct (map fst kvs)" and "(k, v) \<in> set kvs"
      and "\<forall>u \<in> set (us @ [u2]). k \<notin> set (conf_keys u)"
      and "Vendor_init u2 mods (handlers_after mods us (snd (Vendor_init u1 mods g))) = (Inr v2, g2)"
  shows "snd (Vendor_init u1 mods g) = dict_update g kvs
       \<and> map_of (v_vendor_handlers v2) k = Some v"
proof
  show first: "snd (Vendor_init u1 mods g) = dict_update g kvs"
    using assms(1) by (rule Vendor_init_ConfDict)
  have "map_of (v_vendor_handlers v2) k = map_of g2 k"
    using assms(5) by (simp add: Vendor_init_handlers)
  also have "g2 = snd (Vendor_init u2 mods (handlers_after mods us (snd (Vendor_init u1 mods g))))"
    using assms(5) by simp
  also have "map_of \<dots> k = map_of (handlers_after mods us (snd (Vendor_init u1 mods g))) k"
    using assms(4) by (simp add: Vendor_init_other)
  also have "\<dots> = map_of (snd (Vendor_init u1 mods g)) k"
    using assms(4) by (simp add: handlers_after_other)
  also have "\<dots> = Some v"
    using assms(2,3) by (simp add: first dict_update_binds)
  finally show "map_of (v_vendor_handlers v2) k = Some v" .
qed

text \<open>
  A Vendor for \<open>override_ui\<close>, whose configuration maps \<^verbatim>\<open>git\<close> to \<^verbatim>\<open>my.gitvendor\<close>, then
  two Vendors for \<open>example_ui\<close>, whose configuration is empty: the last one is
  \<open>overridden_vendor\<close>, with \<^verbatim>\<open>git\<close> handled by \<^verbatim>\<open>my.gitvendor\<close> and not by the built-in
  \<^verbatim>\<open>couchapp.gitvendor\<close>.
\<close>

theorem override_stays_visible_witness:
  "map_of (ui_conf override_ui) ''vendor_handlers'' = Some (ConfDict [(''git'', ''my.gitvendor'')])
   \<and> Vendor_init example_ui example_modules
        (handlers_after example_modules [example_ui]
           (snd (Vendor_init override_ui example_modules GLOBAL_VENDOR_HANDLERS))) =
       (Inr overridden_vendor, v_vendor_handlers overridden_vendor)
   \<and> snd (Vendor_init override_ui example_modules GLOBAL_VENDOR_HANDLERS) =
       dict_update GLOBAL_VENDOR_HANDLERS [(''git'', ''my.gitvendor'')]
   \<and> map_of (v_vendor_handlers overridden_vendor) ''git'' = Some ''my.gitvendor''
   \<and> map_of GLOBAL_VENDOR_HANDLERS ''git'' = Some ''couchapp.gitvendor''"
proof -
  have a: "map_of (ui_conf override_ui) ''vendor_handlers'' = Some (ConfDict [(''git'', ''my.gitvendor'')])"
    by (simp add: override_ui_def)
  have b: "\<forall>u \<in> set ([example_ui] @ [example_ui]). ''git'' \<notin> set (conf_keys u)"
    by (simp add: conf_keys_def example_ui_def)
  have c: "Vendor_init example_ui example_modules
        (handlers_after example_modules [example_ui]
           (snd (Vendor_init override_ui example_modules GLOBAL_VENDOR_HANDLERS))) =
       (Inr overridden_vendor, v_vendor_handlers overridden_vendor)"
    by (simp add: Vendor_init_def handlers_after_def load_vendors_def dict_update_def
        GLOBAL_VENDOR_HANDLERS_def example_defs)
  have d: "map_of GLOBAL_VENDOR_HANDLERS ''git'' = Some ''couchapp.gitvendor''"
    by (simp add: GLOBAL_VENDOR_HANDLERS_def)
  from override_stays_visible [OF a _ _ b c, where v = "''my.gitvendor''"] a c d
  show ?thesis by simp
qed

end
